theory Spec2Isabelle
  imports Complex_Main "HOL-Library.AList"
begin

section \<open>Python values and builtins used by the field resolver\<close>

text \<open>
  \<^verbatim>\<open>get_all_parameters\<close> fills the Usage Record with a \<^verbatim>\<open>str\<close> (from
  \<^verbatim>\<open>stringValue\<close>), an \<^verbatim>\<open>int\<close> (from \<^verbatim>\<open>intValue\<close>), a \<^verbatim>\<open>bool\<close> (from
  \<^verbatim>\<open>boolValue\<close>) or \<^verbatim>\<open>None\<close>.
\<close>

datatype pval = StrV string | IntV int | BoolV bool | NoneV

text \<open>
  A Python \<^verbatim>\<open>dict\<close> iterates in insertion order and the substring fallback of the
  resolvers depends on that order, so the Usage Record is an association list: the
  position of a pair is its insertion position, \<open>map_of\<close> is \<^verbatim>\<open>parameters[k]\<close> and
  \<^verbatim>\<open>k in parameters\<close> is \<open>map_of parameters k \<noteq> None\<close>. A record built by the
  program has distinct keys.
\<close>

type_synonym params = "(string \<times> pval) list"

text \<open>The two exceptions that the resolvers catch around \<^verbatim>\<open>int(...)\<close> and \<^verbatim>\<open>float(...)\<close>.\<close>

datatype conv_error = ValueError | TypeError

text \<open>
  How Python reads a \<^verbatim>\<open>str\<close> as a number is the interpreter's business and not
  this repository's, so both readings are parameters of the model: \<open>None\<close> stands
  for \<^verbatim>\<open>ValueError\<close>. Python's \<^verbatim>\<open>float\<close> is modelled by the rationals: storage
  figures are taken as exact numbers, and rounding, infinities, NaN and the overflow
  of \<^verbatim>\<open>float\<close> on an integer beyond the double range are outside the model (the
  integers of a usage report are 64-bit, far inside that range).
\<close>

record py_builtins =
  int_of_str :: "string \<Rightarrow> int option"
  float_of_str :: "string \<Rightarrow> rat option"

fun py_int :: "py_builtins \<Rightarrow> pval \<Rightarrow> conv_error + int" where
  "py_int B (StrV s) = (case int_of_str B s of None \<Rightarrow> Inl ValueError | Some n \<Rightarrow> Inr n)"
| "py_int B (IntV n) = Inr n"
| "py_int B (BoolV b) = Inr (if b then 1 else 0)"
| "py_int B NoneV = Inl TypeError"

fun py_float :: "py_builtins \<Rightarrow> pval \<Rightarrow> conv_error + rat" where
  "py_float B (StrV s) = (case float_of_str B s of None \<Rightarrow> Inl ValueError | Some x \<Rightarrow> Inr x)"
| "py_float B (IntV n) = Inr (of_int n)"
| "py_float B (BoolV b) = Inr (if b then 1 else 0)"
| "py_float B NoneV = Inl TypeError"

fun py_bool :: "pval \<Rightarrow> bool" where
  "py_bool (StrV s) = (s \<noteq> [])"
| "py_bool (IntV n) = (n \<noteq> 0)"
| "py_bool (BoolV b) = b"
| "py_bool NoneV = False"

text \<open>
  \<^verbatim>\<open>str.lower()\<close> on the ASCII letters; every other character is left as it is.
\<close>

definition lower_char :: "char \<Rightarrow> char" where
  "lower_char c =
     (case map_of (zip ''ABCDEFGHIJKLMNOPQRSTUVWXYZ'' ''abcdefghijklmnopqrstuvwxyz'') c of
        None \<Rightarrow> c
      | Some d \<Rightarrow> d)"

definition lower :: "string \<Rightarrow> string" where
  "lower s = map lower_char s"

text \<open>\<^verbatim>\<open>x in s\<close> on strings: \<open>x\<close> occurs in \<open>s\<close> as a contiguous substring.\<close>

fun starts_with :: "string \<Rightarrow> string \<Rightarrow> bool" where
  "starts_with [] s = True"
| "starts_with (x # xs) [] = False"
| "starts_with (x # xs) (c # cs) = (x = c \<and> starts_with xs cs)"

fun contains :: "string \<Rightarrow> string \<Rightarrow> bool" where
  "contains x [] = (x = [])"
| "contains x (c # cs) = (starts_with x (c # cs) \<or> contains x cs)"

section \<open>Drive item count\<close>

definition item_count_params :: "string list" where
  "item_count_params =
     [''num_items'', ''num_docs'', ''num_sheets'', ''num_slides'', ''num_drawings'',
      ''num_forms'', ''num_files'', ''num_folders'', ''drive_num_items'', ''doc_count'',
      ''drive_file_count'', ''total_doc_count'']"

definition doc_type_params :: "string list" where
  "doc_type_params =
     [''drive:num_owned_google_documents_created'',
      ''drive:num_owned_google_spreadsheets_created'',
      ''drive:num_owned_google_presentations_created'',
      ''drive:num_owned_google_drawings_created'',
      ''drive:num_owned_google_forms_created'',
      ''drive:num_owned_other_types_created'',
      ''docs:num_owned_google_documents_created'',
      ''docs:num_owned_google_spreadsheets_created'',
      ''docs:num_owned_google_presentations_created'',
      ''docs:num_owned_google_drawings_created'',
      ''docs:num_owned_google_forms_created'',
      ''docs:num_owned_other_types_created'']"

text \<open>
  The first loop of \<^verbatim>\<open>get_drive_item_count\<close>: \<open>Some value\<close> is the \<^verbatim>\<open>return value\<close>
  inside the loop, \<open>None\<close> is the loop running to its end.
\<close>

fun scan_item_count :: "py_builtins \<Rightarrow> params \<Rightarrow> string list \<Rightarrow> int option" where
  "scan_item_count B parameters [] = None"
| "scan_item_count B parameters (param # rest) =
     (case map_of parameters param of
        None \<Rightarrow> scan_item_count B parameters rest
      | Some raw \<Rightarrow>
          (case py_int B raw of
             Inl e \<Rightarrow> scan_item_count B parameters rest
           | Inr value \<Rightarrow>
               if value > 0 then Some value else scan_item_count B parameters rest))"

text \<open>
  The second loop: the state is the pair of \<^verbatim>\<open>type_counts\<close> (a dict, kept in
  insertion order) and \<^verbatim>\<open>total_items\<close>.
\<close>

fun sum_doc_types ::
  "py_builtins \<Rightarrow> params \<Rightarrow> string list \<Rightarrow> (string \<times> int) list \<times> int \<Rightarrow> (string \<times> int) list \<times> int"
where
  "sum_doc_types B parameters [] st = st"
| "sum_doc_types B parameters (param # rest) (type_counts, total_items) =
     (case map_of parameters param of
        None \<Rightarrow> sum_doc_types B parameters rest (type_counts, total_items)
      | Some raw \<Rightarrow>
          (case py_int B raw of
             Inl e \<Rightarrow> sum_doc_types B parameters rest (type_counts, total_items)
           | Inr value \<Rightarrow>
               sum_doc_types B parameters rest
                 (AList.update param value type_counts, total_items + value)))"

text \<open>The third loop, over \<^verbatim>\<open>parameters.items()\<close> in insertion order.\<close>

fun fallback_item_count :: "py_builtins \<Rightarrow> params \<Rightarrow> int option" where
  "fallback_item_count B [] = None"
| "fallback_item_count B ((param_name, param_value) # rest) =
     (if list_ex (\<lambda>x. contains x (lower param_name)) [''count'', ''items'', ''docs''] then
        (case py_int B param_value of
           Inl e \<Rightarrow> fallback_item_count B rest
         | Inr value \<Rightarrow>
             if value > 0 \<and> contains ''drive'' (lower param_name) then Some value
             else fallback_item_count B rest)
      else fallback_item_count B rest)"

definition get_drive_item_count :: "py_builtins \<Rightarrow> params \<Rightarrow> int" where
  "get_drive_item_count B parameters =
     (case scan_item_count B parameters item_count_params of
        Some value \<Rightarrow> value
      | None \<Rightarrow>
          (case sum_doc_types B parameters doc_type_params ([], 0) of
             (type_counts, total_items) \<Rightarrow>
               if type_counts \<noteq> [] \<and> total_items > 0 then total_items
               else if total_items = 0 then
                 (case fallback_item_count B parameters of
                    Some value \<Rightarrow> value
                  | None \<Rightarrow> total_items)
               else total_items))"

section \<open>Drive storage\<close>

definition storage_params :: "string list" where
  "storage_params =
     [''drive_storage_bytes_used'', ''storage_quota_bytes'', ''used_quota_in_mb'',
      ''quota_used'', ''storage_quota_mb'', ''drive_storage_used'', ''total_storage_used'']"

text \<open>
  The block on \<^verbatim>\<open>'accounts:drive_used_quota_in_mb'\<close>: \<open>Some value\<close> is its
  \<^verbatim>\<open>return value\<close>, \<open>None\<close> is control reaching the code after it.
\<close>

definition drive_used_quota_in_mb :: "py_builtins \<Rightarrow> params \<Rightarrow> rat option" where
  "drive_used_quota_in_mb B parameters =
     (case map_of parameters ''accounts:drive_used_quota_in_mb'' of
        None \<Rightarrow> None
      | Some raw \<Rightarrow> (case py_float B raw of Inl e \<Rightarrow> None | Inr value \<Rightarrow> Some value))"

text \<open>
  The loop over a list of storage keys. \<^verbatim>\<open>get_drive_storage\<close> runs it over
  \<^verbatim>\<open>storage_params\<close> and returns its value; \<^verbatim>\<open>get_gmail_statistics\<close> runs the
  same loop body over \<^verbatim>\<open>gmail_storage_params\<close>, stores the value and breaks.
\<close>

fun scan_storage :: "py_builtins \<Rightarrow> params \<Rightarrow> string list \<Rightarrow> rat option" where
  "scan_storage B parameters [] = None"
| "scan_storage B parameters (param # rest) =
     (case map_of parameters param of
        None \<Rightarrow> scan_storage B parameters rest
      | Some raw \<Rightarrow>
          (case py_float B raw of
             Inl e \<Rightarrow> scan_storage B parameters rest
           | Inr value \<Rightarrow>
               Some (if contains ''bytes'' (lower param) \<or> value > 1000000
                     then value / (1024 * 1024) else value)))"

fun fallback_drive_storage :: "py_builtins \<Rightarrow> params \<Rightarrow> rat option" where
  "fallback_drive_storage B [] = None"
| "fallback_drive_storage B ((param_name, param_value) # rest) =
     (if list_ex (\<lambda>x. contains x (lower param_name)) [''storage'', ''quota'', ''byte''] then
        (case py_float B param_value of
           Inl e \<Rightarrow> fallback_drive_storage B rest
         | Inr raw_value \<Rightarrow>
             (let value = (if contains ''bytes'' (lower param_name) \<or> raw_value > 1000000
                           then raw_value / (1024 * 1024) else raw_value)
              in if value > 0 \<and> contains ''drive'' (lower param_name) then Some value
                 else fallback_drive_storage B rest))
      else fallback_drive_storage B rest)"

definition get_drive_storage :: "py_builtins \<Rightarrow> params \<Rightarrow> rat" where
  "get_drive_storage B parameters =
     (case drive_used_quota_in_mb B parameters of
        Some value \<Rightarrow> value
      | None \<Rightarrow>
          (case scan_storage B parameters storage_params of
             Some value \<Rightarrow> value
           | None \<Rightarrow>
               (case fallback_drive_storage B parameters of
                  Some value \<Rightarrow> value
                | None \<Rightarrow> 0)))"

section \<open>Gmail statistics\<close>

record gmail_stats =
  Gmail_Storage_MB :: rat
  Gmail_Emails_Received :: int
  Gmail_Emails_Sent :: int
  Gmail_Emails_Exchanged :: int
  Is_Gmail_Enabled :: bool
  Has_Gmail_Data :: bool

definition gmail_status_params :: "string list" where
  "gmail_status_params =
     [''gmail:is_gmail_enabled'', ''is_gmail_enabled'', ''gmail_enabled'', ''has_gmail'']"

definition gmail_storage_params :: "string list" where
  "gmail_storage_params =
     [''gmail_used_quota_in_mb'', ''gmail_storage_used'', ''gmail_quota_used'',
      ''gmail_storage_bytes_used'']"

definition sent_params :: "string list" where
  "sent_params = [''gmail:num_emails_sent'', ''num_emails_sent'', ''emails_sent'', ''sent_mail_count'']"

definition received_params :: "string list" where
  "received_params =
     [''gmail:num_emails_received'', ''num_emails_received'', ''emails_received'',
      ''received_mail_count'']"

definition exchanged_params :: "string list" where
  "exchanged_params =
     [''gmail:num_emails_exchanged'', ''num_emails_exchanged'', ''emails_exchanged'',
      ''total_mail_count'']"

text \<open>The status loop: \<^verbatim>\<open>bool(...)\<close> never raises, so the first key present ends it.\<close>

fun scan_status :: "params \<Rightarrow> string list \<Rightarrow> bool option" where
  "scan_status parameters [] = None"
| "scan_status parameters (param # rest) =
     (case map_of parameters param of
        None \<Rightarrow> scan_status parameters rest
      | Some raw \<Rightarrow> Some (py_bool raw))"

text \<open>
  The loops for the sent, received and exchanged counts have one body: the first key
  that is present and that \<^verbatim>\<open>int\<close> accepts is stored, and the loop breaks.
\<close>

fun scan_count :: "py_builtins \<Rightarrow> params \<Rightarrow> string list \<Rightarrow> int option" where
  "scan_count B parameters [] = None"
| "scan_count B parameters (param # rest) =
     (case map_of parameters param of
        None \<Rightarrow> scan_count B parameters rest
      | Some raw \<Rightarrow>
          (case py_int B raw of
             Inl e \<Rightarrow> scan_count B parameters rest
           | Inr value \<Rightarrow> Some value))"

fun fallback_gmail_storage :: "py_builtins \<Rightarrow> params \<Rightarrow> rat option" where
  "fallback_gmail_storage B [] = None"
| "fallback_gmail_storage B ((param_name, param_value) # rest) =
     (if list_ex (\<lambda>x. contains x (lower param_name)) [''storage'', ''quota'', ''byte'']
         \<and> contains ''gmail'' (lower param_name) then
        (case py_float B param_value of
           Inl e \<Rightarrow> fallback_gmail_storage B rest
         | Inr raw_value \<Rightarrow>
             (let value = (if contains ''bytes'' (lower param_name) \<or> raw_value > 1000000
                           then raw_value / (1024 * 1024) else raw_value)
              in if value > 0 then Some value else fallback_gmail_storage B rest))
      else fallback_gmail_storage B rest)"

text \<open>The part of \<^verbatim>\<open>get_gmail_statistics\<close> under the comment \<^verbatim>\<open># Get Gmail storage\<close>.\<close>

definition gmail_storage :: "py_builtins \<Rightarrow> params \<Rightarrow> gmail_stats \<Rightarrow> gmail_stats" where
  "gmail_storage B parameters gmail_stats =
     (case map_of parameters ''accounts:gmail_used_quota_in_mb'' of
        Some raw \<Rightarrow>
          (case py_float B raw of
             Inl e \<Rightarrow> gmail_stats
           | Inr value \<Rightarrow> gmail_stats\<lparr>Gmail_Storage_MB := value, Has_Gmail_Data := True\<rparr>)
      | None \<Rightarrow>
          (let gmail_stats =
                 (case scan_storage B parameters gmail_storage_params of
                    None \<Rightarrow> gmail_stats
                  | Some value \<Rightarrow>
                      gmail_stats\<lparr>Gmail_Storage_MB := value, Has_Gmail_Data := True\<rparr>)
           in if Gmail_Storage_MB gmail_stats = 0 then
                (case fallback_gmail_storage B parameters of
                   None \<Rightarrow> gmail_stats
                 | Some value \<Rightarrow>
                     gmail_stats\<lparr>Gmail_Storage_MB := value, Has_Gmail_Data := True\<rparr>)
              else gmail_stats))"

definition get_gmail_statistics :: "py_builtins \<Rightarrow> params \<Rightarrow> gmail_stats" where
  "get_gmail_statistics B parameters =
     (let gmail_stats =
            \<lparr>Gmail_Storage_MB = 0, Gmail_Emails_Received = 0, Gmail_Emails_Sent = 0,
             Gmail_Emails_Exchanged = 0, Is_Gmail_Enabled = True, Has_Gmail_Data = False\<rparr>;
          gmail_stats =
            (case scan_status parameters gmail_status_params of
               None \<Rightarrow> gmail_stats
             | Some enabled \<Rightarrow> gmail_stats\<lparr>Is_Gmail_Enabled := enabled\<rparr>);
          gmail_stats = gmail_storage B parameters gmail_stats;
          gmail_stats =
            (case scan_count B parameters sent_params of
               None \<Rightarrow> gmail_stats
             | Some value \<Rightarrow> gmail_stats\<lparr>Gmail_Emails_Sent := value, Has_Gmail_Data := True\<rparr>);
          gmail_stats =
            (case scan_count B parameters received_params of
               None \<Rightarrow> gmail_stats
             | Some value \<Rightarrow>
                 gmail_stats\<lparr>Gmail_Emails_Received := value, Has_Gmail_Data := True\<rparr>);
          gmail_stats =
            (case scan_count B parameters exchanged_params of
               None \<Rightarrow> gmail_stats
             | Some value \<Rightarrow>
                 gmail_stats\<lparr>Gmail_Emails_Exchanged := value, Has_Gmail_Data := True\<rparr>)
      in if Gmail_Emails_Exchanged gmail_stats = 0
            \<and> (Gmail_Emails_Sent gmail_stats > 0 \<or> Gmail_Emails_Received gmail_stats > 0)
         then gmail_stats\<lparr>Gmail_Emails_Exchanged :=
                Gmail_Emails_Sent gmail_stats + Gmail_Emails_Received gmail_stats\<rparr>
         else gmail_stats)"

section \<open>Combined statistics of one user\<close>

text \<open>
  The \<^verbatim>\<open>stats\<close> dict of \<^verbatim>\<open>get_user_workspace_stats\<close> has the six Gmail keys of
  \<^verbatim>\<open>gmail_stats\<close> and six more.
\<close>

record stats = gmail_stats +
  Email :: string
  Drive_Storage_MB :: rat
  Drive_Item_Count :: int
  Has_Drive_Data :: bool
  Total_Storage_MB :: rat
  Parameter_Source :: string

text \<open>
  The answer of a remote call: it raises, or it returns a value. Of the directory's
  user resource the function reads only \<^verbatim>\<open>user_info.get('suspended', False)\<close>.
\<close>

datatype 'a outcome = Raised | Returned 'a

record user_info =
  suspended :: "bool option"

text \<open>
  \<open>parameters\<close> is what \<^verbatim>\<open>self.get_all_parameters(user_email)\<close> returned: the Usage
  Record, or the empty dict when its retrieval failed (that method catches every
  exception). With conversions that raise only what the resolvers catch, nothing
  reaches the outer \<^verbatim>\<open>except\<close> of the function.
\<close>

definition get_user_workspace_stats ::
  "py_builtins \<Rightarrow> string \<Rightarrow> user_info outcome \<Rightarrow> params \<Rightarrow> stats"
where
  "get_user_workspace_stats B user_email directory_answer parameters =
     (let stats =
            \<lparr>Gmail_Storage_MB = 0, Gmail_Emails_Received = 0, Gmail_Emails_Sent = 0,
             Gmail_Emails_Exchanged = 0, Is_Gmail_Enabled = True, Has_Gmail_Data = False,
             Email = user_email, Drive_Storage_MB = 0, Drive_Item_Count = 0,
             Has_Drive_Data = False, Total_Storage_MB = 0,
             Parameter_Source = ''reports_api''\<rparr>;
          stats =
            (case directory_answer of
               Raised \<Rightarrow> stats
             | Returned info \<Rightarrow>
                 if suspended info = Some True then stats\<lparr>Is_Gmail_Enabled := False\<rparr>
                 else stats)
      in if parameters \<noteq> [] then
           (let drive_storage = get_drive_storage B parameters;
                stats =
                  (if drive_storage > 0
                   then stats\<lparr>Drive_Storage_MB := drive_storage, Has_Drive_Data := True\<rparr>
                   else stats);
                drive_items = get_drive_item_count B parameters;
                stats =
                  (if drive_items > 0
                   then stats\<lparr>Drive_Item_Count := drive_items, Has_Drive_Data := True\<rparr>
                   else stats);
                gmail_stats = get_gmail_statistics B parameters;
                stats =
                  stats\<lparr>Gmail_Storage_MB := Gmail_Storage_MB gmail_stats,
                        Gmail_Emails_Received := Gmail_Emails_Received gmail_stats,
                        Gmail_Emails_Sent := Gmail_Emails_Sent gmail_stats,
                        Gmail_Emails_Exchanged := Gmail_Emails_Exchanged gmail_stats,
                        Is_Gmail_Enabled := Is_Gmail_Enabled gmail_stats,
                        Has_Gmail_Data := Has_Gmail_Data gmail_stats\<rparr>
            in stats\<lparr>Total_Storage_MB := Gmail_Storage_MB stats + Drive_Storage_MB stats\<rparr>)
         else stats)"

section \<open>Granting a role on a shared drive\<close>

text \<open>
  A permission resource as \<^verbatim>\<open>permissions().list\<close> returns it, with the three fields
  the script asks for (\<^verbatim>\<open>id\<close>, \<^verbatim>\<open>emailAddress\<close>, \<^verbatim>\<open>role\<close>); a field may be missing.
\<close>

record permission =
  perm_id :: "string option"
  emailAddress :: "string option"
  perm_role :: "string option"

text \<open>
  The requests the script sends: \<^verbatim>\<open>list(fileId)\<close>,
  \<^verbatim>\<open>update(fileId, permissionId, body={'role': role})\<close> and
  \<^verbatim>\<open>create(fileId, body={'type': 'user', 'role': role, 'emailAddress': admin_email})\<close>.
  Only the last two change the remote permissions.
\<close>

datatype request =
    Permissions_list string
  | Permissions_update string "string option" string
  | Permissions_create string string string

fun mutating :: "request \<Rightarrow> bool" where
  "mutating (Permissions_list drive_id) = False"
| "mutating (Permissions_update drive_id permission_id role) = True"
| "mutating (Permissions_create drive_id admin_email role) = True"

text \<open>The lines the two functions print, one constructor for each \<^verbatim>\<open>print\<close>.\<close>

datatype message =
    Error_checking_permissions string
  | Already_has_role string string string
  | Dry_run_would_update string "string option" string string
  | Updated string "string option" string string
  | Error_updating string
  | Dry_run_would_add string string string
  | Added string string string
  | Error_adding string

text \<open>
  What the script acts on: the permissions of every drive held by the remote service,
  whether each kind of request fails with \<^verbatim>\<open>HttpError\<close>, the identifier the service
  gives to a permission it creates, the requests sent so far and the lines printed so
  far. An accepted update sets the role of the permission with the given identifier;
  an accepted create adds a permission of the given user.
\<close>

record world =
  remote_permissions :: "string \<Rightarrow> permission list"
  list_fails :: bool
  update_fails :: bool
  create_fails :: bool
  new_permission_id :: string
  requests :: "request list"
  printed :: "message list"

definition permissions_list :: "world \<Rightarrow> string \<Rightarrow> permission list outcome \<times> world" where
  "permissions_list w drive_id =
     (let w = w\<lparr>requests := requests w @ [Permissions_list drive_id]\<rparr>
      in if list_fails w then (Raised, w) else (Returned (remote_permissions w drive_id), w))"

definition permissions_update ::
  "world \<Rightarrow> string \<Rightarrow> string option \<Rightarrow> string \<Rightarrow> unit outcome \<times> world"
where
  "permissions_update w drive_id permission_id role =
     (let w = w\<lparr>requests := requests w @ [Permissions_update drive_id permission_id role]\<rparr>
      in if update_fails w then (Raised, w)
         else (Returned (),
               w\<lparr>remote_permissions := (remote_permissions w)
                    (drive_id :=
                       map (\<lambda>p. if perm_id p = permission_id then p\<lparr>perm_role := Some role\<rparr> else p)
                         (remote_permissions w drive_id))\<rparr>))"

definition permissions_create ::
  "world \<Rightarrow> string \<Rightarrow> string \<Rightarrow> string \<Rightarrow> unit outcome \<times> world"
where
  "permissions_create w drive_id admin_email role =
     (let w = w\<lparr>requests := requests w @ [Permissions_create drive_id admin_email role]\<rparr>
      in if create_fails w then (Raised, w)
         else (Returned (),
               w\<lparr>remote_permissions := (remote_permissions w)
                    (drive_id := remote_permissions w drive_id @
                       [\<lparr>perm_id = Some (new_permission_id w),
                         emailAddress = Some admin_email,
                         perm_role = Some role\<rparr>])\<rparr>))"

definition print :: "message \<Rightarrow> world \<Rightarrow> world" where
  "print m w = w\<lparr>printed := printed w @ [m]\<rparr>"

text \<open>
  The loop of \<^verbatim>\<open>check_admin_permissions\<close>: \<open>Some\<close> is the \<^verbatim>\<open>return\<close> from inside
  the loop, \<open>None\<close> the loop running to its end.
\<close>

fun find_admin ::
  "permission list \<Rightarrow> string \<Rightarrow> (bool \<times> string option \<times> string option) option"
where
  "find_admin [] admin_email = None"
| "find_admin (permission # rest) admin_email =
     (if lower (case emailAddress permission of None \<Rightarrow> [] | Some e \<Rightarrow> e) = lower admin_email
      then Some (True, perm_id permission, perm_role permission)
      else find_admin rest admin_email)"

definition check_admin_permissions ::
  "world \<Rightarrow> string \<Rightarrow> string \<Rightarrow> (bool \<times> string option \<times> string option) \<times> world"
where
  "check_admin_permissions w drive_id admin_email =
     (case permissions_list w drive_id of
        (Returned permissions, w) \<Rightarrow>
          (case find_admin permissions admin_email of
             Some found \<Rightarrow> (found, w)
           | None \<Rightarrow> ((False, None, None), w))
      | (Raised, w) \<Rightarrow>
          ((False, None, None), print (Error_checking_permissions drive_id) w))"

definition add_admin_to_drive ::
  "world \<Rightarrow> string \<Rightarrow> string \<Rightarrow> string \<Rightarrow> string \<Rightarrow> bool \<Rightarrow> bool \<times> world"
where
  "add_admin_to_drive w drive_id drive_name admin_email role dry_run =
     (case check_admin_permissions w drive_id admin_email of
        ((has_permissions, permission_id, current_role), w) \<Rightarrow>
          if has_permissions then
            if current_role = Some role then
              (True, print (Already_has_role admin_email role drive_name) w)
            else if dry_run then
              (True, print (Dry_run_would_update admin_email current_role role drive_name) w)
            else
              (case permissions_update w drive_id permission_id role of
                 (Returned u, w) \<Rightarrow>
                   (True, print (Updated admin_email current_role role drive_name) w)
               | (Raised, w) \<Rightarrow> (False, print (Error_updating drive_name) w))
          else if dry_run then
            (True, print (Dry_run_would_add admin_email role drive_name) w)
          else
            (case permissions_create w drive_id admin_email role of
               (Returned u, w) \<Rightarrow> (True, print (Added admin_email role drive_name) w)
             | (Raised, w) \<Rightarrow> (False, print (Error_adding drive_name) w)))"

section \<open>Notions in which the properties are stated\<close>

text \<open>
  The number a key carries: \<open>None\<close> when the key is absent or its value does not
  convert, the converted value otherwise.
\<close>

definition int_at :: "py_builtins \<Rightarrow> params \<Rightarrow> string \<Rightarrow> int option" where
  "int_at B parameters k =
     (case map_of parameters k of
        None \<Rightarrow> None
      | Some raw \<Rightarrow> (case py_int B raw of Inl e \<Rightarrow> None | Inr n \<Rightarrow> Some n))"

definition float_at :: "py_builtins \<Rightarrow> params \<Rightarrow> string \<Rightarrow> rat option" where
  "float_at B parameters k =
     (case map_of parameters k of
        None \<Rightarrow> None
      | Some raw \<Rightarrow> (case py_float B raw of Inl e \<Rightarrow> None | Inr x \<Rightarrow> Some x))"

text \<open>A key that is present with a value that converts and is strictly greater than zero.\<close>

definition positive_int_key :: "py_builtins \<Rightarrow> params \<Rightarrow> string \<Rightarrow> bool" where
  "positive_int_key B parameters k =
     (case int_at B parameters k of None \<Rightarrow> False | Some n \<Rightarrow> n > 0)"

text \<open>The sum of all present, successfully converted values of the component keys.\<close>

definition component_sum :: "py_builtins \<Rightarrow> params \<Rightarrow> int" where
  "component_sum B parameters =
     sum_list (map (\<lambda>k. case int_at B parameters k of None \<Rightarrow> 0 | Some n \<Rightarrow> n) doc_type_params)"

text \<open>
  The count a list of keys resolves to: the value of the first key of the list that is
  present with a value that converts, zero when there is none.
\<close>

definition resolved_count :: "py_builtins \<Rightarrow> params \<Rightarrow> string list \<Rightarrow> int" where
  "resolved_count B parameters keys =
     (case List.map_filter (int_at B parameters) keys of [] \<Rightarrow> 0 | v # vs \<Rightarrow> v)"

text \<open>
  The unit rule as the specification words it: a value from a key whose name has the
  marker \<^verbatim>\<open>bytes\<close>, or a value above one million, is divided by 1,048,576; any other
  value is left as it is.
\<close>

definition to_mb :: "string \<Rightarrow> rat \<Rightarrow> rat" where
  "to_mb k v = (if contains ''bytes'' (lower k) \<or> v > 1000000 then v / 1048576 else v)"

text \<open>The first key of a list that is present with a value that converts, with that value.\<close>

definition first_float :: "py_builtins \<Rightarrow> params \<Rightarrow> string list \<Rightarrow> (string \<times> rat) option" where
  "first_float B parameters keys =
     (case find (\<lambda>k. float_at B parameters k \<noteq> None) keys of
        None \<Rightarrow> None
      | Some k \<Rightarrow> map_option (Pair k) (float_at B parameters k))"

text \<open>
  A match of the last-resort scan: the name holds one of the marker substrings and
  the domain marker, and the value converts to a positive number.
\<close>

definition item_count_fallback_match :: "py_builtins \<Rightarrow> string \<times> pval \<Rightarrow> bool" where
  "item_count_fallback_match B p =
     (case p of (name, raw) \<Rightarrow>
        list_ex (\<lambda>x. contains x (lower name)) [''count'', ''items'', ''docs'']
        \<and> contains ''drive'' (lower name)
        \<and> (case py_int B raw of Inl e \<Rightarrow> False | Inr n \<Rightarrow> n > 0))"

definition drive_storage_fallback_match :: "py_builtins \<Rightarrow> string \<times> pval \<Rightarrow> bool" where
  "drive_storage_fallback_match B p =
     (case p of (name, raw) \<Rightarrow>
        list_ex (\<lambda>x. contains x (lower name)) [''storage'', ''quota'', ''byte'']
        \<and> contains ''drive'' (lower name)
        \<and> (case py_float B raw of Inl e \<Rightarrow> False | Inr x \<Rightarrow> x > 0))"

definition gmail_storage_fallback_match :: "py_builtins \<Rightarrow> string \<times> pval \<Rightarrow> bool" where
  "gmail_storage_fallback_match B p =
     (case p of (name, raw) \<Rightarrow>
        list_ex (\<lambda>x. contains x (lower name)) [''storage'', ''quota'', ''byte'']
        \<and> contains ''gmail'' (lower name)
        \<and> (case py_float B raw of Inl e \<Rightarrow> False | Inr x \<Rightarrow> x > 0))"

section \<open>Sample builtins and records\<close>

text \<open>
  The properties hold for every reading of strings. The examples use this one: a
  non-empty string of ASCII digits is the number it spells, as in Python, and no other
  string is a number (Python accepts more: blanks, a sign, underscores, exponents).
\<close>

definition digit_of :: "char \<Rightarrow> int option" where
  "digit_of c = map_of (zip ''0123456789'' [0, 1, 2, 3, 4, 5, 6, 7, 8, 9]) c"

fun digits_value :: "string \<Rightarrow> int \<Rightarrow> int option" where
  "digits_value [] acc = Some acc"
| "digits_value (c # cs) acc =
     (case digit_of c of None \<Rightarrow> None | Some d \<Rightarrow> digits_value cs (10 * acc + d))"

definition decimal_builtins :: py_builtins where
  "decimal_builtins =
     \<lparr>int_of_str = (\<lambda>s. if s = [] then None else digits_value s 0),
      float_of_str = (\<lambda>s. if s = [] then None else map_option of_int (digits_value s 0))\<rparr>"

definition record_with_two_counts :: params where
  "record_with_two_counts =
     [(''total_doc_count'', IntV 1000), (''num_docs'', StrV ''3''),
      (''num_items'', StrV ''n/a''), (''customer_id'', StrV ''C01'')]"

definition record_with_components :: params where
  "record_with_components =
     [(''num_items'', IntV 0),
      (''drive:num_owned_google_documents_created'', IntV 4),
      (''docs:num_owned_google_forms_created'', StrV ''2''),
      (''drive:num_owned_other_types_created'', NoneV),
      (''drive:item_count'', IntV 7)]"


definition record_with_zero_quota :: params where
  "record_with_zero_quota = [(''used_quota_in_mb'', IntV 0), (''drive_quota_total'', IntV 5)]"

definition record_with_zero_sent :: params where
  "record_with_zero_sent = [(''gmail:num_emails_sent'', IntV 0), (''num_emails_sent'', IntV 4)]"

definition record_with_storage :: params where
  "record_with_storage =
     [(''num_emails_sent'', IntV 5), (''num_emails_received'', StrV ''7''),
      (''drive_storage_used'', IntV 3), (''gmail_storage_bytes_used'', IntV 2097152)]"

definition record_with_negative_mail :: params where
  "record_with_negative_mail =
     [(''num_emails_sent'', IntV (- 1)), (''num_emails_received'', IntV (- 2))]"

definition sample_world :: world where
  "sample_world =
     \<lparr>remote_permissions =
        (\<lambda>d. if d = ''D1''
              then [\<lparr>perm_id = Some ''p0'', emailAddress = Some ''owner@example.org'',
                      perm_role = Some ''organizer''\<rparr>,
                    \<lparr>perm_id = Some ''p1'', emailAddress = Some ''Admin@Example.org'',
                      perm_role = Some ''reader''\<rparr>]
              else []),
      list_fails = False, update_fails = False, create_fails = False,
      new_permission_id = ''p9'', requests = [], printed = []\<rparr>"

definition record_with_quota_in_mb :: params where
  "record_with_quota_in_mb =
     [(''accounts:drive_used_quota_in_mb'', IntV 2000000),
      (''accounts:gmail_used_quota_in_mb'', IntV 3000000)]"

definition record_with_bytes :: params where
  "record_with_bytes =
     [(''storage_quota_bytes'', IntV 524288), (''quota_used'', IntV 7),
      (''gmail_storage_used'', IntV 2097152)]"

definition record_with_fallback_storage :: params where
  "record_with_fallback_storage =
     [(''quota_used'', StrV ''unknown''), (''drive:quota_mb'', IntV 12),
      (''gmail_storage_used'', IntV 0), (''gmail:mailbox_bytes'', StrV ''3145728'')]"

definition record_with_negative_component :: params where
  "record_with_negative_component =
     [(''drive:num_owned_google_documents_created'', IntV (- 3)), (''customer_id'', StrV ''C01'')]"

definition record_with_skipped_fallback :: params where
  "record_with_skipped_fallback =
     [(''drive:num_owned_google_documents_created'', IntV (- 3)), (''drive:item_count'', IntV 7)]"

section \<open>Properties of the Drive item count\<close>

lemma scan_item_count_find:
  "scan_item_count B ps ks =
     (case find (positive_int_key B ps) ks of None \<Rightarrow> None | Some k \<Rightarrow> int_at B ps k)"
  by (induction ks) (auto simp: positive_int_key_def int_at_def split: option.splits sum.splits)

lemma sum_doc_types_total:
  "snd (sum_doc_types B ps ks (tc, t)) =
     t + sum_list (map (\<lambda>k. case int_at B ps k of None \<Rightarrow> 0 | Some n \<Rightarrow> n) ks)"
  by (induction ks arbitrary: tc t) (auto simp: int_at_def split: option.splits sum.splits)

text \<open>
  The three stages of \<^verbatim>\<open>get_drive_item_count\<close>. The dict \<^verbatim>\<open>type_counts\<close> has no
  part in the result: when the total is not zero it is returned on either path.
\<close>

lemma get_drive_item_count_stages:
  "get_drive_item_count B ps =
     (case scan_item_count B ps item_count_params of
        Some v \<Rightarrow> v
      | None \<Rightarrow>
          if component_sum B ps = 0
          then (case fallback_item_count B ps of Some v \<Rightarrow> v | None \<Rightarrow> 0)
          else component_sum B ps)"
proof -
  obtain tc t where st: "sum_doc_types B ps doc_type_params ([], 0) = (tc, t)"
    by (cases "sum_doc_types B ps doc_type_params ([], 0)")
  have "t = component_sum B ps"
    using sum_doc_types_total [of B ps doc_type_params "[]" 0] st
    by (simp add: component_sum_def)
  with st show ?thesis
    by (simp add: get_drive_item_count_def split: option.splits)
qed

text \<open>
  Claim C1. When some key of the ordered list \<^verbatim>\<open>item_count_params\<close> is present with
  a value that converts to an integer greater than zero, \<^verbatim>\<open>get_drive_item_count\<close>
  returns the value of the first such key in list order, whatever else the record
  holds and however large the values of later keys are.
\<close>

theorem get_drive_item_count_first_positive_key:
  assumes "find (positive_int_key B ps) item_count_params = Some k"
      and "int_at B ps k = Some v"
  shows "get_drive_item_count B ps = v"
  using assms by (simp add: get_drive_item_count_def scan_item_count_find)

theorem get_drive_item_count_first_positive_key_witness:
  "find (positive_int_key decimal_builtins record_with_two_counts) item_count_params
     = Some ''num_docs''
   \<and> int_at decimal_builtins record_with_two_counts ''num_docs'' = Some 3
   \<and> int_at decimal_builtins record_with_two_counts ''total_doc_count'' = Some 1000
   \<and> get_drive_item_count decimal_builtins record_with_two_counts = 3"
proof -
  have h1: "find (positive_int_key decimal_builtins record_with_two_counts) item_count_params
              = Some ''num_docs''"
    by code_simp
  have h2: "int_at decimal_builtins record_with_two_counts ''num_docs'' = Some 3"
    by code_simp
  have h3: "int_at decimal_builtins record_with_two_counts ''total_doc_count'' = Some 1000"
    by code_simp
  from get_drive_item_count_first_positive_key [OF h1 h2] h1 h2 h3 show ?thesis
    by simp
qed




subsection \<open>A key whose value is zero\<close>

lemma int_at_delete:
  "int_at B (AList.delete k ps) k' = (if k' = k then None else int_at B ps k')"
  by (simp add: int_at_def delete_conv')

lemma scan_item_count_delete:
  assumes "int_at B ps k = Some 0"
  shows "scan_item_count B (AList.delete k ps) ks = scan_item_count B ps ks"
proof -
  have "positive_int_key B (AList.delete k ps) = positive_int_key B ps"
    using assms by (auto simp: positive_int_key_def int_at_delete fun_eq_iff)
  moreover have "\<And>k'. find (positive_int_key B ps) ks = Some k' \<Longrightarrow> k' \<noteq> k"
    using assms by (auto simp: find_Some_iff positive_int_key_def)
  ultimately show ?thesis
    by (auto simp: scan_item_count_find int_at_delete split: option.splits)
qed

lemma component_sum_delete:
  assumes "int_at B ps k = Some 0"
  shows "component_sum B (AList.delete k ps) = component_sum B ps"
proof -
  have "(\<lambda>k'. case int_at B (AList.delete k ps) k' of None \<Rightarrow> 0 | Some n \<Rightarrow> n)
        = (\<lambda>k'. case int_at B ps k' of None \<Rightarrow> 0 | Some n \<Rightarrow> n)"
    using assms by (auto simp: int_at_delete fun_eq_iff)
  then show ?thesis by (simp add: component_sum_def)
qed

lemma fallback_item_count_delete:
  assumes "\<And>raw. (k, raw) \<in> set ps \<Longrightarrow> py_int B raw = Inr 0"
  shows "fallback_item_count B (AList.delete k ps) = fallback_item_count B ps"
  using assms
proof (induction ps)
  case Nil
  then show ?case by simp
next
  case (Cons p ps)
  obtain name raw where p: "p = (name, raw)" by (cases p)
  have ih: "fallback_item_count B (AList.delete k ps) = fallback_item_count B ps"
    using Cons by simp
  show ?case
  proof (cases "name = k")
    case True
    then have "py_int B raw = Inr 0" using Cons.prems p by simp
    with True p ih show ?thesis by simp
  next
    case False
    with p ih show ?thesis by (simp split: sum.splits)
  qed
qed

lemma fallback_drive_storage_delete:
  assumes "\<And>raw. (k, raw) \<in> set ps \<Longrightarrow> py_float B raw = Inr 0"
  shows "fallback_drive_storage B (AList.delete k ps) = fallback_drive_storage B ps"
  using assms
proof (induction ps)
  case Nil
  then show ?case by simp
next
  case (Cons p ps)
  obtain name raw where p: "p = (name, raw)" by (cases p)
  have ih: "fallback_drive_storage B (AList.delete k ps) = fallback_drive_storage B ps"
    using Cons by simp
  show ?case
  proof (cases "name = k")
    case True
    then have "py_float B raw = Inr 0" using Cons.prems p by simp
    with True p ih show ?thesis by simp
  next
    case False
    with p ih show ?thesis by (simp split: sum.splits)
  qed
qed

lemma fallback_gmail_storage_delete:
  assumes "\<And>raw. (k, raw) \<in> set ps \<Longrightarrow> py_float B raw = Inr 0"
  shows "fallback_gmail_storage B (AList.delete k ps) = fallback_gmail_storage B ps"
  using assms
proof (induction ps)
  case Nil
  then show ?case by simp
next
  case (Cons p ps)
  obtain name raw where p: "p = (name, raw)" by (cases p)
  have ih: "fallback_gmail_storage B (AList.delete k ps) = fallback_gmail_storage B ps"
    using Cons by simp
  show ?case
  proof (cases "name = k")
    case True
    then have "py_float B raw = Inr 0" using Cons.prems p by simp
    with True p ih show ?thesis by simp
  next
    case False
    with p ih show ?thesis by (simp split: sum.splits)
  qed
qed

text \<open>
  Claim C3, as stated, fails. In \<^verbatim>\<open>get_drive_storage\<close> the dedicated key
  \<^verbatim>\<open>used_quota_in_mb\<close> with value 0 is returned, and the substring scan, which
  would have found 5, is never reached; without the key the result is 5. In
  \<^verbatim>\<open>get_gmail_statistics\<close> the first sent key with value 0 is stored and ends the
  loop, so the later key with value 4 is never read.
\<close>

theorem zero_valued_key_returned_counterexample:
  "float_at decimal_builtins record_with_zero_quota ''used_quota_in_mb'' = Some 0
   \<and> get_drive_storage decimal_builtins record_with_zero_quota = 0
   \<and> get_drive_storage decimal_builtins
        (AList.delete ''used_quota_in_mb'' record_with_zero_quota) = 5
   \<and> int_at decimal_builtins record_with_zero_sent ''gmail:num_emails_sent'' = Some 0
   \<and> Gmail_Emails_Sent (get_gmail_statistics decimal_builtins record_with_zero_sent) = 0
   \<and> Gmail_Emails_Sent (get_gmail_statistics decimal_builtins
        (AList.delete ''gmail:num_emails_sent'' record_with_zero_sent)) = 4"
  by code_simp

text \<open>
  Claim C3, amended. The gate \<^verbatim>\<open>value > 0\<close> stands at every stage of
  \<^verbatim>\<open>get_drive_item_count\<close> and in the substring scan of the two storage resolvers:
  there a key that is present with a value converting to zero is never returned and
  stops nothing, the result being the one of the record without that key. The
  dedicated-key stages of \<^verbatim>\<open>get_drive_storage\<close> and \<^verbatim>\<open>get_gmail_statistics\<close> have no
  such gate (see the counterexample).
\<close>

theorem zero_valued_key_as_absent:
  assumes "distinct (map fst ps)"
      and "map_of ps k = Some raw"
  shows "(py_int B raw = Inr 0 \<longrightarrow>
            get_drive_item_count B (AList.delete k ps) = get_drive_item_count B ps)
         \<and> (py_float B raw = Inr 0 \<longrightarrow>
            fallback_drive_storage B (AList.delete k ps) = fallback_drive_storage B ps
            \<and> fallback_gmail_storage B (AList.delete k ps) = fallback_gmail_storage B ps)"
proof (intro conjI impI)
  assume zero: "py_int B raw = Inr 0"
  have z: "int_at B ps k = Some 0"
    using assms zero by (simp add: int_at_def)
  have "\<And>raw'. (k, raw') \<in> set ps \<Longrightarrow> py_int B raw' = Inr 0"
    using assms zero by (metis map_of_is_SomeI option.inject)
  then have f: "fallback_item_count B (AList.delete k ps) = fallback_item_count B ps"
    by (rule fallback_item_count_delete)
  show "get_drive_item_count B (AList.delete k ps) = get_drive_item_count B ps"
    by (simp only: get_drive_item_count_stages f scan_item_count_delete [OF z]
          component_sum_delete [OF z])
next
  assume zero: "py_float B raw = Inr 0"
  have all: "\<And>raw'. (k, raw') \<in> set ps \<Longrightarrow> py_float B raw' = Inr 0"
    using assms zero by (metis map_of_is_SomeI option.inject)
  then show "fallback_drive_storage B (AList.delete k ps) = fallback_drive_storage B ps"
    by (rule fallback_drive_storage_delete)
  from all show "fallback_gmail_storage B (AList.delete k ps) = fallback_gmail_storage B ps"
    by (rule fallback_gmail_storage_delete)
qed

theorem zero_valued_key_as_absent_witness:
  "distinct (map fst record_with_components)
   \<and> map_of record_with_components ''num_items'' = Some (IntV 0)
   \<and> py_int decimal_builtins (IntV 0) = Inr 0
   \<and> get_drive_item_count decimal_builtins (AList.delete ''num_items'' record_with_components)
       = get_drive_item_count decimal_builtins record_with_components
   \<and> get_drive_item_count decimal_builtins record_with_components = 6
   \<and> fallback_drive_storage decimal_builtins (AList.delete ''num_items'' record_with_components)
       = fallback_drive_storage decimal_builtins record_with_components"
proof -
  have h1: "distinct (map fst record_with_components)"
    by code_simp
  have h2: "map_of record_with_components ''num_items'' = Some (IntV 0)"
    by code_simp
  have h3: "py_int decimal_builtins (IntV 0) = Inr 0"
    by simp
  have h4: "py_float decimal_builtins (IntV 0) = Inr 0"
    by simp
  have h5: "get_drive_item_count decimal_builtins record_with_components = 6"
    by code_simp
  from zero_valued_key_as_absent [OF h1 h2, of decimal_builtins] h1 h2 h3 h4 h5
  show ?thesis by simp
qed

section \<open>Properties of the Gmail statistics and of the combined statistics\<close>

lemma scan_count_resolved:
  "(case scan_count B ps ks of None \<Rightarrow> 0 | Some v \<Rightarrow> v) = resolved_count B ps ks"
  by (induction ks)
     (auto simp: resolved_count_def int_at_def List.map_filter_simps split: option.splits sum.splits)

lemma gmail_storage_counts:
  "Gmail_Emails_Sent (gmail_storage B ps g) = Gmail_Emails_Sent g"
  "Gmail_Emails_Received (gmail_storage B ps g) = Gmail_Emails_Received g"
  "Gmail_Emails_Exchanged (gmail_storage B ps g) = Gmail_Emails_Exchanged g"
  by (simp_all add: gmail_storage_def Let_def split: option.splits sum.splits)

lemma get_gmail_statistics_counts:
  "Gmail_Emails_Sent (get_gmail_statistics B ps) = resolved_count B ps sent_params"
  "Gmail_Emails_Received (get_gmail_statistics B ps) = resolved_count B ps received_params"
  "Gmail_Emails_Exchanged (get_gmail_statistics B ps) =
     (if resolved_count B ps exchanged_params = 0
         \<and> (resolved_count B ps sent_params > 0 \<or> resolved_count B ps received_params > 0)
      then resolved_count B ps sent_params + resolved_count B ps received_params
      else resolved_count B ps exchanged_params)"
  unfolding scan_count_resolved [symmetric]
  by (auto simp: get_gmail_statistics_def Let_def gmail_storage_counts split: option.splits)

text \<open>
  Claim C9, as stated, fails: with no exchanged key, sent resolving to \<open>- 1\<close> and
  received to \<open>- 2\<close> (both non-zero), the exchanged total stays 0 and is not their
  sum, since the code asks for \<^verbatim>\<open>> 0\<close>.
\<close>

theorem exchanged_not_synthesised_counterexample:
  "resolved_count decimal_builtins record_with_negative_mail exchanged_params = 0
   \<and> Gmail_Emails_Sent (get_gmail_statistics decimal_builtins record_with_negative_mail) = - 1
   \<and> Gmail_Emails_Received (get_gmail_statistics decimal_builtins record_with_negative_mail) = - 2
   \<and> Gmail_Emails_Exchanged (get_gmail_statistics decimal_builtins record_with_negative_mail) = 0"
  by code_simp

text \<open>
  Claim C9, amended. When the exchanged keys resolve to zero and at least one of the
  sent and received counts resolves to a value greater than zero,
  \<^verbatim>\<open>get_gmail_statistics\<close> sets \<^verbatim>\<open>Gmail_Emails_Exchanged\<close> to the sum of the resolved
  sent and received counts. The witness is the record with sent 5, received 7 and no
  exchanged key, whose total is 12.
\<close>

theorem get_gmail_statistics_exchanged_synthesised:
  assumes "resolved_count B ps exchanged_params = 0"
      and "resolved_count B ps sent_params > 0 \<or> resolved_count B ps received_params > 0"
  shows "Gmail_Emails_Exchanged (get_gmail_statistics B ps)
           = resolved_count B ps sent_params + resolved_count B ps received_params
         \<and> Gmail_Emails_Sent (get_gmail_statistics B ps) = resolved_count B ps sent_params
         \<and> Gmail_Emails_Received (get_gmail_statistics B ps)
           = resolved_count B ps received_params"
  using assms by (simp add: get_gmail_statistics_counts)

theorem get_gmail_statistics_exchanged_synthesised_witness:
  "resolved_count decimal_builtins record_with_storage exchanged_params = 0
   \<and> list_all (\<lambda>k. map_of record_with_storage k = None) exchanged_params
   \<and> resolved_count decimal_builtins record_with_storage sent_params = 5
   \<and> resolved_count decimal_builtins record_with_storage received_params = 7
   \<and> Gmail_Emails_Exchanged (get_gmail_statistics decimal_builtins record_with_storage) = 12"
proof -
  have h1: "resolved_count decimal_builtins record_with_storage exchanged_params = 0"
    by code_simp
  have h2: "resolved_count decimal_builtins record_with_storage sent_params = 5"
    by code_simp
  have h3: "resolved_count decimal_builtins record_with_storage received_params = 7"
    by code_simp
  have h4: "list_all (\<lambda>k. map_of record_with_storage k = None) exchanged_params"
    by code_simp
  have "resolved_count decimal_builtins record_with_storage sent_params > 0
        \<or> resolved_count decimal_builtins record_with_storage received_params > 0"
    using h2 by simp
  from get_gmail_statistics_exchanged_synthesised [OF h1 this] h1 h2 h3 h4 show ?thesis
    by simp
qed

text \<open>
  Claim C7. In the record \<^verbatim>\<open>get_user_workspace_stats\<close> returns, the total storage is
  the sum of the Gmail and Drive storage of that record. The two are resolved apart:
  the Gmail figure is the one of \<^verbatim>\<open>get_gmail_statistics\<close>, the Drive figure the one of
  \<^verbatim>\<open>get_drive_storage\<close> when it is positive, and each is zero otherwise, as both are
  for the empty Usage Record (which is also what a failed retrieval gives).
\<close>

theorem get_user_workspace_stats_total_storage:
  "Total_Storage_MB (get_user_workspace_stats B user_email directory_answer ps)
     = Gmail_Storage_MB (get_user_workspace_stats B user_email directory_answer ps)
       + Drive_Storage_MB (get_user_workspace_stats B user_email directory_answer ps)
   \<and> Gmail_Storage_MB (get_user_workspace_stats B user_email directory_answer ps)
     = (if ps = [] then 0 else Gmail_Storage_MB (get_gmail_statistics B ps))
   \<and> Drive_Storage_MB (get_user_workspace_stats B user_email directory_answer ps)
     = (if ps \<noteq> [] \<and> get_drive_storage B ps > 0 then get_drive_storage B ps else 0)"
  by (simp add: get_user_workspace_stats_def Let_def split: outcome.splits)

theorem get_user_workspace_stats_total_storage_witness:
  "Gmail_Storage_MB (get_user_workspace_stats decimal_builtins ''u@example.org'' Raised
      record_with_storage) = 2
   \<and> Drive_Storage_MB (get_user_workspace_stats decimal_builtins ''u@example.org'' Raised
      record_with_storage) = 3
   \<and> Total_Storage_MB (get_user_workspace_stats decimal_builtins ''u@example.org'' Raised
      record_with_storage) = 5
   \<and> Total_Storage_MB (get_user_workspace_stats decimal_builtins ''u@example.org'' Raised [])
     = 0"
proof -
  have g: "Gmail_Storage_MB (get_gmail_statistics decimal_builtins record_with_storage) = 2"
    by code_simp
  have d: "get_drive_storage decimal_builtins record_with_storage = 3"
    by code_simp
  have n: "record_with_storage \<noteq> []"
    by (simp add: record_with_storage_def)
  from get_user_workspace_stats_total_storage
         [of decimal_builtins "''u@example.org''" Raised record_with_storage]
       get_user_workspace_stats_total_storage
         [of decimal_builtins "''u@example.org''" Raised "[]"] g d n
  show ?thesis by simp
qed

lemma scan_status_absent:
  "\<forall>k \<in> set ks. map_of ps k = None \<Longrightarrow> scan_status ps ks = None"
  by (induction ks) auto

lemma gmail_storage_enabled:
  "Is_Gmail_Enabled (gmail_storage B ps g) = Is_Gmail_Enabled g"
  by (simp add: gmail_storage_def Let_def split: option.splits sum.splits)

lemma get_gmail_statistics_enabled:
  "Is_Gmail_Enabled (get_gmail_statistics B ps)
     = (case scan_status ps gmail_status_params of None \<Rightarrow> True | Some b \<Rightarrow> b)"
  by (simp add: get_gmail_statistics_def Let_def gmail_storage_enabled split: option.splits)

text \<open>
  Claim C10. For a user the directory reports as suspended, when the Usage Record is
  not empty and holds none of the four Gmail-status keys, the returned record has
  \<^verbatim>\<open>Is_Gmail_Enabled = True\<close>: the \<^verbatim>\<open>False\<close> set after the suspension check is
  overwritten by the default of \<^verbatim>\<open>get_gmail_statistics\<close>. (With the empty record the
  flag stays \<^verbatim>\<open>False\<close>, as the witness also shows.)
\<close>

theorem suspended_user_reported_gmail_enabled:
  assumes "ps \<noteq> []"
      and "\<forall>k \<in> set gmail_status_params. map_of ps k = None"
  shows "Is_Gmail_Enabled
           (get_user_workspace_stats B user_email (Returned \<lparr>suspended = Some True\<rparr>) ps)"
  using assms
  by (simp add: get_user_workspace_stats_def Let_def get_gmail_statistics_enabled
        scan_status_absent)

theorem suspended_user_reported_gmail_enabled_witness:
  "record_with_storage \<noteq> []
   \<and> list_all (\<lambda>k. map_of record_with_storage k = None) gmail_status_params
   \<and> Is_Gmail_Enabled (get_user_workspace_stats decimal_builtins ''u@example.org''
         (Returned \<lparr>suspended = Some True\<rparr>) record_with_storage)
   \<and> \<not> Is_Gmail_Enabled (get_user_workspace_stats decimal_builtins ''u@example.org''
         (Returned \<lparr>suspended = Some True\<rparr>) [])"
proof -
  have h1: "record_with_storage \<noteq> []"
    by (simp add: record_with_storage_def)
  have h2: "list_all (\<lambda>k. map_of record_with_storage k = None) gmail_status_params"
    by code_simp
  then have h2': "\<forall>k \<in> set gmail_status_params. map_of record_with_storage k = None"
    by (simp add: list_all_iff)
  have h3: "\<not> Is_Gmail_Enabled (get_user_workspace_stats decimal_builtins ''u@example.org''
         (Returned \<lparr>suspended = Some True\<rparr>) [])"
    by (simp add: get_user_workspace_stats_def)
  from suspended_user_reported_gmail_enabled [OF h1 h2'] h1 h2 h3 show ?thesis
    by simp
qed

section \<open>Properties of the grant on a shared drive\<close>

lemma check_admin_permissions_effect:
  assumes "check_admin_permissions w drive_id admin_email = (res, w1)"
  shows "requests w1 = requests w @ [Permissions_list drive_id]
         \<and> remote_permissions w1 = remote_permissions w"
  using assms
  by (auto simp: check_admin_permissions_def permissions_list_def print_def Let_def
           split: if_splits option.splits)

lemma check_admin_permissions_found:
  assumes "check_admin_permissions w drive_id admin_email = ((True, pid, cur), w1)"
  shows "printed w1 = printed w"
  using assms
  by (auto simp: check_admin_permissions_def permissions_list_def print_def Let_def
           split: if_splits option.splits)

text \<open>
  Claim C5. With \<^verbatim>\<open>dry_run\<close> set, \<^verbatim>\<open>add_admin_to_drive\<close> sends the one read request of
  the permission check and nothing else, whatever the check reports (a matching role,
  another role, no permission, or a failed check): no update and no create request is
  among the requests sent, the remote permissions are as before, and the function
  returns \<^verbatim>\<open>True\<close> after printing the line for what it found: the role is held
  already, or the update or the addition it would have made.
\<close>

theorem add_admin_to_drive_dry_run:
  assumes "check_admin_permissions w drive_id admin_email
             = ((has_permissions, permission_id, current_role), w1)"
      and "add_admin_to_drive w drive_id drive_name admin_email role True = (ok, w')"
  shows "ok
         \<and> requests w' = requests w @ [Permissions_list drive_id]
         \<and> filter mutating (requests w') = filter mutating (requests w)
         \<and> remote_permissions w' = remote_permissions w
         \<and> printed w' = printed w1 @
              [if has_permissions
               then if current_role = Some role
                    then Already_has_role admin_email role drive_name
                    else Dry_run_would_update admin_email current_role role drive_name
               else Dry_run_would_add admin_email role drive_name]"
proof -
  have w': "ok \<and> w' = print (if has_permissions
               then if current_role = Some role
                    then Already_has_role admin_email role drive_name
                    else Dry_run_would_update admin_email current_role role drive_name
               else Dry_run_would_add admin_email role drive_name) w1"
    using assms by (auto simp: add_admin_to_drive_def)
  from check_admin_permissions_effect [OF assms(1)] w' show ?thesis
    by (simp add: print_def)
qed

theorem add_admin_to_drive_dry_run_witness:
  "check_admin_permissions sample_world ''D1'' ''admin@example.org''
     = ((True, Some ''p1'', Some ''reader''),
        sample_world\<lparr>requests := [Permissions_list ''D1'']\<rparr>)
   \<and> fst (add_admin_to_drive sample_world ''D1'' ''Team'' ''admin@example.org''
        ''organizer'' True)
   \<and> requests (snd (add_admin_to_drive sample_world ''D1'' ''Team'' ''admin@example.org''
        ''organizer'' True))
       = [Permissions_list ''D1'']
   \<and> printed (snd (add_admin_to_drive sample_world ''D1'' ''Team'' ''admin@example.org''
        ''organizer'' True))
       = [Dry_run_would_update ''admin@example.org'' (Some ''reader'') ''organizer'' ''Team'']"
proof -
  have h1: "check_admin_permissions sample_world ''D1'' ''admin@example.org''
     = ((True, Some ''p1'', Some ''reader''),
        sample_world\<lparr>requests := [Permissions_list ''D1'']\<rparr>)"
    by (simp add: check_admin_permissions_def permissions_list_def sample_world_def Let_def
          lower_def lower_char_def)
  obtain ok w' where h2:
    "add_admin_to_drive sample_world ''D1'' ''Team'' ''admin@example.org'' ''organizer'' True
       = (ok, w')"
    by (cases "add_admin_to_drive sample_world ''D1'' ''Team'' ''admin@example.org''
                 ''organizer'' True")
  from add_admin_to_drive_dry_run [OF h1 h2] h1 h2 show ?thesis
    by (simp add: sample_world_def)
qed

text \<open>
  Claim C6. When the permission check reports that the admin holds exactly the role
  asked for, \<^verbatim>\<open>add_admin_to_drive\<close>, dry run or not, sends no update and no create
  request (the read request of the check is the only one), leaves the remote
  permissions as they were, prints the already-has-role line and no other, and returns
  \<^verbatim>\<open>True\<close>.
\<close>

theorem add_admin_to_drive_role_already_held:
  assumes "check_admin_permissions w drive_id admin_email
             = ((True, permission_id, Some role), w1)"
      and "add_admin_to_drive w drive_id drive_name admin_email role dry_run = (ok, w')"
  shows "ok
         \<and> requests w' = requests w @ [Permissions_list drive_id]
         \<and> filter mutating (requests w') = filter mutating (requests w)
         \<and> remote_permissions w' = remote_permissions w
         \<and> printed w' = printed w @ [Already_has_role admin_email role drive_name]"
proof -
  have w': "ok \<and> w' = print (Already_has_role admin_email role drive_name) w1"
    using assms by (auto simp: add_admin_to_drive_def)
  from check_admin_permissions_effect [OF assms(1)] check_admin_permissions_found [OF assms(1)] w'
  show ?thesis
    by (simp add: print_def)
qed

theorem add_admin_to_drive_role_already_held_witness:
  "check_admin_permissions sample_world ''D1'' ''admin@example.org''
     = ((True, Some ''p1'', Some ''reader''),
        sample_world\<lparr>requests := [Permissions_list ''D1'']\<rparr>)
   \<and> fst (add_admin_to_drive sample_world ''D1'' ''Team'' ''admin@example.org''
        ''reader'' False)
   \<and> requests (snd (add_admin_to_drive sample_world ''D1'' ''Team'' ''admin@example.org''
        ''reader'' False))
       = [Permissions_list ''D1'']
   \<and> remote_permissions (snd (add_admin_to_drive sample_world ''D1'' ''Team''
        ''admin@example.org'' ''reader'' False))
       = remote_permissions sample_world
   \<and> printed (snd (add_admin_to_drive sample_world ''D1'' ''Team'' ''admin@example.org''
        ''reader'' False))
       = [Already_has_role ''admin@example.org'' ''reader'' ''Team'']"
proof -
  have h1: "check_admin_permissions sample_world ''D1'' ''admin@example.org''
     = ((True, Some ''p1'', Some ''reader''),
        sample_world\<lparr>requests := [Permissions_list ''D1'']\<rparr>)"
    by (simp add: check_admin_permissions_def permissions_list_def sample_world_def Let_def
          lower_def lower_char_def)
  obtain ok w' where h2:
    "add_admin_to_drive sample_world ''D1'' ''Team'' ''admin@example.org'' ''reader'' False
       = (ok, w')"
    by (cases "add_admin_to_drive sample_world ''D1'' ''Team'' ''admin@example.org''
                 ''reader'' False")
  from add_admin_to_drive_role_already_held [OF h1 h2] h1 h2 show ?thesis
    by (simp add: sample_world_def)
qed

section \<open>Properties of the storage resolvers\<close>

lemma to_mb_positive: "to_mb k v > 0 \<longleftrightarrow> v > 0"
  by (simp add: to_mb_def zero_less_divide_iff)

lemma to_mb_inline:
  "(if contains ''bytes'' (lower k) \<or> v > 1000000 then v / (1024 * 1024) else v) = to_mb k v"
  by (simp add: to_mb_def)

lemma scan_storage_first:
  "scan_storage B ps ks = map_option (\<lambda>(k, v). to_mb k v) (first_float B ps ks)"
  by (induction ks)
     (auto simp: first_float_def float_at_def to_mb_def split: option.splits sum.splits)

lemma fallback_item_count_find:
  "fallback_item_count B ps =
     (case find (item_count_fallback_match B) ps of
        None \<Rightarrow> None
      | Some (name, raw) \<Rightarrow> (case py_int B raw of Inl e \<Rightarrow> None | Inr n \<Rightarrow> Some n))"
proof (induction ps)
  case Nil
  then show ?case by simp
next
  case (Cons p ps)
  obtain name raw where p: "p = (name, raw)" by (cases p)
  show ?case
    using Cons
    by (simp add: p item_count_fallback_match_def split: sum.splits)
qed

lemma fallback_drive_storage_find:
  "fallback_drive_storage B ps =
     (case find (drive_storage_fallback_match B) ps of
        None \<Rightarrow> None
      | Some (name, raw) \<Rightarrow>
          (case py_float B raw of Inl e \<Rightarrow> None | Inr x \<Rightarrow> Some (to_mb name x)))"
proof (induction ps)
  case Nil
  then show ?case by simp
next
  case (Cons p ps)
  obtain name raw where p: "p = (name, raw)" by (cases p)
  show ?case
    using Cons to_mb_positive [of name]
    by (simp add: p drive_storage_fallback_match_def to_mb_inline Let_def split: sum.splits)
qed

lemma fallback_gmail_storage_find:
  "fallback_gmail_storage B ps =
     (case find (gmail_storage_fallback_match B) ps of
        None \<Rightarrow> None
      | Some (name, raw) \<Rightarrow>
          (case py_float B raw of Inl e \<Rightarrow> None | Inr x \<Rightarrow> Some (to_mb name x)))"
proof (induction ps)
  case Nil
  then show ?case by simp
next
  case (Cons p ps)
  obtain name raw where p: "p = (name, raw)" by (cases p)
  show ?case
    using Cons to_mb_positive [of name]
    by (simp add: p gmail_storage_fallback_match_def to_mb_inline Let_def split: sum.splits)
qed

lemma drive_used_quota_in_mb_float_at:
  "drive_used_quota_in_mb B ps = float_at B ps ''accounts:drive_used_quota_in_mb''"
  by (simp add: drive_used_quota_in_mb_def float_at_def)

lemma get_drive_storage_stages:
  "get_drive_storage B ps =
     (case float_at B ps ''accounts:drive_used_quota_in_mb'' of
        Some v \<Rightarrow> v
      | None \<Rightarrow>
          (case first_float B ps storage_params of
             Some (k, v) \<Rightarrow> to_mb k v
           | None \<Rightarrow>
               (case find (drive_storage_fallback_match B) ps of
                  None \<Rightarrow> 0
                | Some (name, raw) \<Rightarrow>
                    (case py_float B raw of Inl e \<Rightarrow> 0 | Inr x \<Rightarrow> to_mb name x))))"
proof (cases "float_at B ps ''accounts:drive_used_quota_in_mb''")
  case (Some v)
  then show ?thesis
    by (simp add: get_drive_storage_def drive_used_quota_in_mb_float_at)
next
  case None
  show ?thesis
  proof (cases "first_float B ps storage_params")
    case (Some kv)
    with None show ?thesis
      by (cases kv)
         (simp add: get_drive_storage_def drive_used_quota_in_mb_float_at scan_storage_first)
  next
    case n: None
    show ?thesis
    proof (cases "find (drive_storage_fallback_match B) ps")
      case None
      with \<open>float_at B ps ''accounts:drive_used_quota_in_mb'' = None\<close> n show ?thesis
        by (simp add: get_drive_storage_def drive_used_quota_in_mb_float_at scan_storage_first
              fallback_drive_storage_find)
    next
      case (Some nr)
      with \<open>float_at B ps ''accounts:drive_used_quota_in_mb'' = None\<close> n show ?thesis
        by (cases nr; cases "py_float B (snd nr)")
           (simp_all add: get_drive_storage_def drive_used_quota_in_mb_float_at
              scan_storage_first fallback_drive_storage_find)
    qed
  qed
qed

lemma gmail_storage_value:
  "Gmail_Storage_MB (gmail_storage B ps g) =
     (case map_of ps ''accounts:gmail_used_quota_in_mb'' of
        Some raw \<Rightarrow> (case py_float B raw of Inl e \<Rightarrow> Gmail_Storage_MB g | Inr v \<Rightarrow> v)
      | None \<Rightarrow>
         (let s = (case first_float B ps gmail_storage_params of
                     None \<Rightarrow> Gmail_Storage_MB g | Some (k, v) \<Rightarrow> to_mb k v)
          in if s = 0 then
               (case find (gmail_storage_fallback_match B) ps of
                  None \<Rightarrow> s
                | Some (name, raw) \<Rightarrow>
                    (case py_float B raw of Inl e \<Rightarrow> s | Inr x \<Rightarrow> to_mb name x))
             else s))"
proof (cases "map_of ps ''accounts:gmail_used_quota_in_mb''")
  case (Some raw)
  then show ?thesis
    by (cases "py_float B raw") (simp_all add: gmail_storage_def)
next
  case None
  show ?thesis
  proof (cases "first_float B ps gmail_storage_params")
    case n: None
    show ?thesis
    proof (cases "find (gmail_storage_fallback_match B) ps")
      case f: None
      from None n f show ?thesis
        by (simp add: gmail_storage_def Let_def scan_storage_first fallback_gmail_storage_find)
    next
      case (Some nr)
      with None n show ?thesis
        by (cases nr; cases "py_float B (snd nr)")
           (simp_all add: gmail_storage_def Let_def scan_storage_first
              fallback_gmail_storage_find)
    qed
  next
    case (Some kv)
    obtain k v where kv: "kv = (k, v)" by (cases kv)
    show ?thesis
    proof (cases "find (gmail_storage_fallback_match B) ps")
      case f: None
      from None Some kv f show ?thesis
        by (simp add: gmail_storage_def Let_def scan_storage_first fallback_gmail_storage_find)
    next
      case f: (Some nr)
      from None Some kv f show ?thesis
        by (cases nr; cases "py_float B (snd nr)")
           (simp_all add: gmail_storage_def Let_def scan_storage_first
              fallback_gmail_storage_find)
    qed
  qed
qed

lemma get_gmail_statistics_storage:
  "Gmail_Storage_MB (get_gmail_statistics B ps) =
     (case map_of ps ''accounts:gmail_used_quota_in_mb'' of
        Some raw \<Rightarrow> (case py_float B raw of Inl e \<Rightarrow> 0 | Inr v \<Rightarrow> v)
      | None \<Rightarrow>
         (let s = (case first_float B ps gmail_storage_params of
                     None \<Rightarrow> 0 | Some (k, v) \<Rightarrow> to_mb k v)
          in if s = 0 then
               (case find (gmail_storage_fallback_match B) ps of
                  None \<Rightarrow> s
                | Some (name, raw) \<Rightarrow>
                    (case py_float B raw of Inl e \<Rightarrow> s | Inr x \<Rightarrow> to_mb name x))
             else s))"
proof -
  define g1 where "g1 =
    (case scan_status ps gmail_status_params of
       None \<Rightarrow> \<lparr>Gmail_Storage_MB = 0, Gmail_Emails_Received = 0, Gmail_Emails_Sent = 0,
          Gmail_Emails_Exchanged = 0, Is_Gmail_Enabled = True, Has_Gmail_Data = False\<rparr>
     | Some enabled \<Rightarrow> \<lparr>Gmail_Storage_MB = 0, Gmail_Emails_Received = 0,
          Gmail_Emails_Sent = 0, Gmail_Emails_Exchanged = 0, Is_Gmail_Enabled = enabled,
          Has_Gmail_Data = False\<rparr>)"
  have z: "Gmail_Storage_MB g1 = 0"
    by (simp add: g1_def split: option.splits)
  have e: "Gmail_Storage_MB (get_gmail_statistics B ps)
             = Gmail_Storage_MB (gmail_storage B ps g1)"
    by (simp add: get_gmail_statistics_def Let_def g1_def split: option.splits)
  show ?thesis
    by (simp only: e gmail_storage_value z)
qed

text \<open>
  Claim C4, as stated, fails: a value above one million under the direct key
  \<^verbatim>\<open>accounts:drive_used_quota_in_mb\<close> (or \<^verbatim>\<open>accounts:gmail_used_quota_in_mb\<close>) is
  returned as it is, not divided by 1,048,576.
\<close>

theorem quota_in_mb_not_converted_counterexample:
  "float_at decimal_builtins record_with_quota_in_mb ''accounts:drive_used_quota_in_mb''
     = Some 2000000
   \<and> get_drive_storage decimal_builtins record_with_quota_in_mb = 2000000
   \<and> get_drive_storage decimal_builtins record_with_quota_in_mb \<noteq> 2000000 / 1048576
   \<and> float_at decimal_builtins record_with_quota_in_mb ''accounts:gmail_used_quota_in_mb''
     = Some 3000000
   \<and> Gmail_Storage_MB (get_gmail_statistics decimal_builtins record_with_quota_in_mb) = 3000000
   \<and> Gmail_Storage_MB (get_gmail_statistics decimal_builtins record_with_quota_in_mb)
     \<noteq> 3000000 / 1048576"
  by code_simp

text \<open>
  Claim C4, amended. A value that \<^verbatim>\<open>get_drive_storage\<close> returns, or that
  \<^verbatim>\<open>get_gmail_statistics\<close> stores as \<^verbatim>\<open>Gmail_Storage_MB\<close>, from a key other than the
  direct key \<^verbatim>\<open>accounts:..._used_quota_in_mb\<close> follows the unit rule: taken from the
  first convertible key of the dedicated list, or from the first match of the substring
  scan when the dedicated list gives nothing (for Gmail: nothing or zero), it is the
  raw value divided by 1,048,576 when the key's name contains \<^verbatim>\<open>bytes\<close> or the raw
  value exceeds one million, and the raw value otherwise.
\<close>

theorem storage_unit_normalisation:
  "(float_at B ps ''accounts:drive_used_quota_in_mb'' = None
      \<and> first_float B ps storage_params = Some (k, v)
      \<longrightarrow> get_drive_storage B ps = to_mb k v)
   \<and> (float_at B ps ''accounts:drive_used_quota_in_mb'' = None
      \<and> first_float B ps storage_params = None
      \<and> find (drive_storage_fallback_match B) ps = Some (k, raw)
      \<and> py_float B raw = Inr v
      \<longrightarrow> get_drive_storage B ps = to_mb k v)
   \<and> (map_of ps ''accounts:gmail_used_quota_in_mb'' = None
      \<and> first_float B ps gmail_storage_params = Some (k, v)
      \<and> v \<noteq> 0
      \<longrightarrow> Gmail_Storage_MB (get_gmail_statistics B ps) = to_mb k v)
   \<and> (map_of ps ''accounts:gmail_used_quota_in_mb'' = None
      \<and> (first_float B ps gmail_storage_params = None
           \<or> first_float B ps gmail_storage_params = Some (k0, 0))
      \<and> find (gmail_storage_fallback_match B) ps = Some (k, raw)
      \<and> py_float B raw = Inr v
      \<longrightarrow> Gmail_Storage_MB (get_gmail_statistics B ps) = to_mb k v)"
proof -
  have z: "\<And>k v. v \<noteq> 0 \<Longrightarrow> to_mb k v \<noteq> 0"
    by (simp add: to_mb_def)
  have z0: "\<And>k. to_mb k 0 = 0"
    by (simp add: to_mb_def)
  show ?thesis
    by (auto simp: get_drive_storage_stages get_gmail_statistics_storage Let_def z z0)
qed

theorem storage_unit_normalisation_witness:
  "float_at decimal_builtins record_with_bytes ''accounts:drive_used_quota_in_mb'' = None
   \<and> first_float decimal_builtins record_with_bytes storage_params
       = Some (''storage_quota_bytes'', 524288)
   \<and> get_drive_storage decimal_builtins record_with_bytes = 1 / 2
   \<and> first_float decimal_builtins record_with_bytes gmail_storage_params
       = Some (''gmail_storage_used'', 2097152)
   \<and> Gmail_Storage_MB (get_gmail_statistics decimal_builtins record_with_bytes) = 2
   \<and> first_float decimal_builtins record_with_fallback_storage storage_params = None
   \<and> find (drive_storage_fallback_match decimal_builtins) record_with_fallback_storage
       = Some (''drive:quota_mb'', IntV 12)
   \<and> get_drive_storage decimal_builtins record_with_fallback_storage = 12
   \<and> first_float decimal_builtins record_with_fallback_storage gmail_storage_params
       = Some (''gmail_storage_used'', 0)
   \<and> find (gmail_storage_fallback_match decimal_builtins) record_with_fallback_storage
       = Some (''gmail:mailbox_bytes'', StrV ''3145728'')
   \<and> Gmail_Storage_MB (get_gmail_statistics decimal_builtins record_with_fallback_storage) = 3"
proof -
  have a1: "float_at decimal_builtins record_with_bytes ''accounts:drive_used_quota_in_mb'' = None"
    by code_simp
  have a2: "first_float decimal_builtins record_with_bytes storage_params
              = Some (''storage_quota_bytes'', 524288)"
    by code_simp
  have a3: "map_of record_with_bytes ''accounts:gmail_used_quota_in_mb'' = None"
    by code_simp
  have a4: "first_float decimal_builtins record_with_bytes gmail_storage_params
              = Some (''gmail_storage_used'', 2097152)"
    by code_simp
  have b1: "float_at decimal_builtins record_with_fallback_storage
              ''accounts:drive_used_quota_in_mb'' = None"
    by code_simp
  have b2: "first_float decimal_builtins record_with_fallback_storage storage_params = None"
    by code_simp
  have b3: "find (drive_storage_fallback_match decimal_builtins) record_with_fallback_storage
              = Some (''drive:quota_mb'', IntV 12)"
    by code_simp
  have b4: "py_float decimal_builtins (IntV 12) = Inr 12"
    by simp
  have c1: "map_of record_with_fallback_storage ''accounts:gmail_used_quota_in_mb'' = None"
    by code_simp
  have c2: "first_float decimal_builtins record_with_fallback_storage gmail_storage_params
              = Some (''gmail_storage_used'', 0)"
    by code_simp
  have c3: "find (gmail_storage_fallback_match decimal_builtins) record_with_fallback_storage
              = Some (''gmail:mailbox_bytes'', StrV ''3145728'')"
    by code_simp
  have c4: "py_float decimal_builtins (StrV ''3145728'') = Inr 3145728"
    by code_simp
  have t1: "to_mb ''storage_quota_bytes'' 524288 = 1 / 2"
    by code_simp
  have t2: "to_mb ''gmail_storage_used'' 2097152 = 2"
    by code_simp
  have t3: "to_mb ''drive:quota_mb'' 12 = 12"
    by code_simp
  have t4: "to_mb ''gmail:mailbox_bytes'' 3145728 = 3"
    by code_simp
  have "get_drive_storage decimal_builtins record_with_bytes = 1 / 2"
    using storage_unit_normalisation
            [where B = decimal_builtins and ps = record_with_bytes
               and k = "''storage_quota_bytes''" and v = 524288]
          a1 a2 t1
    by simp
  moreover have "Gmail_Storage_MB (get_gmail_statistics decimal_builtins record_with_bytes) = 2"
    using storage_unit_normalisation
            [where B = decimal_builtins and ps = record_with_bytes
               and k = "''gmail_storage_used''" and v = 2097152]
          a3 a4 t2
    by simp
  moreover have "get_drive_storage decimal_builtins record_with_fallback_storage = 12"
    using storage_unit_normalisation
            [where B = decimal_builtins and ps = record_with_fallback_storage
               and k = "''drive:quota_mb''" and v = 12 and raw = "IntV 12"]
          b1 b2 b3 b4 t3
    by simp
  moreover have
    "Gmail_Storage_MB (get_gmail_statistics decimal_builtins record_with_fallback_storage) = 3"
    using storage_unit_normalisation
            [where B = decimal_builtins and ps = record_with_fallback_storage
               and k = "''gmail:mailbox_bytes''" and v = 3145728
               and raw = "StrV ''3145728''" and ?k0.0 = "''gmail_storage_used''"]
          c1 c2 c3 c4 t4
    by simp
  ultimately show ?thesis
    using a1 a2 a4 b2 b3 c2 c3 by simp
qed

text \<open>
  Claim C8. The claim says what the resolver is written to do, and the code departs
  from it. In the first record no stage yields a positive value: no comprehensive key
  is present, the one component key carries \<open>- 3\<close> and the substring scan has no
  match. Yet \<^verbatim>\<open>get_drive_item_count\<close> returns \<open>- 3\<close>, not zero: after the component
  loop both guards fail (\<^verbatim>\<open>total_items > 0\<close> and \<^verbatim>\<open>total_items == 0\<close>) and control
  reaches the last line, \<^verbatim>\<open>return total_items\<close>. Every other \<^verbatim>\<open>return\<close> of the function
  stands behind \<^verbatim>\<open>value > 0\<close>, and \<^verbatim>\<open>get_drive_storage\<close> ends with its zero default.
  The second record shows the same path passing over a substring match of 7.
\<close>

theorem get_drive_item_count_returns_negative_total:
  "find (positive_int_key decimal_builtins record_with_negative_component) item_count_params
     = None
   \<and> component_sum decimal_builtins record_with_negative_component = - 3
   \<and> find (item_count_fallback_match decimal_builtins) record_with_negative_component = None
   \<and> get_drive_item_count decimal_builtins record_with_negative_component = - 3
   \<and> find (item_count_fallback_match decimal_builtins) record_with_skipped_fallback
     = Some (''drive:item_count'', IntV 7)
   \<and> get_drive_item_count decimal_builtins record_with_skipped_fallback = - 3"
  by code_simp

end
